theory Spec2Isabelle
  imports Main "HOL-Library.Word"
begin

unbundle bit_operations_syntax

section \<open>Control plane of the Betrusted SoC\<close>

text \<open>
  The gateware description \<^verbatim>\<open>betrusted-soc.py\<close> builds synchronous hardware: every class
  declares registers, combinational assignments (\<^verbatim>\<open>self.comb\<close>) and clocked assignments
  (\<^verbatim>\<open>self.sync\<close>). The embedding is cycle based. The registers of a block are a record, a
  \<^verbatim>\<open>comb\<close> assignment is a function of the record (and of the inputs of the current cycle),
  and a \<^verbatim>\<open>sync\<close> assignment is a step function that gives the record after the next clock
  edge. One-bit signals are \<open>bool\<close>, wider ones are words of their width. The single bus
  master performs at most one register access per cycle. At power-on, and after a clock
  edge at which the reset of the bus domain is asserted, the registers of a block hold
  their reset values (the record \<open>_init\<close> of the block). The clock generator produces
  that reset itself and its step function contains it; the power block has a step
  function with the reset as an input. The other step functions describe the clock edges
  at which the reset is released.
\<close>

subsection \<open>Register fields\<close>

text \<open>
  Modelled from the spec: the default reset value of a register or field of the register
  library, which is not part of the repository file. The register map gives reset 0 for
  every register and field that the source declares without a reset value (the control
  field of the reboot block, the address and data fields of the clock port, the audio,
  ec_snoop, noisebias and noise fields of the power register).
\<close>

definition CSR_default_reset :: nat where
  "CSR_default_reset = 0"

text \<open>
  Modelled from the spec: the field packing of the register library, which is not part of
  the repository file. The data model calls the power state "bit-packed fields" and lists
  them in declaration order; fields are laid out in that order from bit 0 upwards, and the
  reset value of the register is the union of the fields' reset values at their offsets.
  A field declared without a size is one bit wide and a field declared without a reset
  value resets to the default.
\<close>

datatype CSRField = CSRField (field_name: string) (field_size: nat) (field_reset: nat)

fun field_offset :: "CSRField list \<Rightarrow> string \<Rightarrow> nat \<Rightarrow> (nat \<times> nat) option" where
  "field_offset [] n off = None"
| "field_offset (f # fs) n off =
     (if field_name f = n then Some (off, field_size f)
      else field_offset fs n (off + field_size f))"

fun fields_reset :: "CSRField list \<Rightarrow> nat \<Rightarrow> nat" where
  "fields_reset [] off = 0"
| "fields_reset (f # fs) off =
     push_bit off (field_reset f) OR fields_reset fs (off + field_size f)"

text \<open>
  Reading a field of a stored value. A field name that the register does not declare is
  rejected when the hardware is generated, so the last case never runs.
\<close>

definition field_value :: "CSRField list \<Rightarrow> string \<Rightarrow> 8 word \<Rightarrow> 8 word" where
  "field_value fs n w =
     (case field_offset fs n 0 of
        Some (off, sz) \<Rightarrow> take_bit sz (drop_bit off w)
      | None \<Rightarrow> 0)"

text \<open>
  Modelled from the spec: the storage and status registers of the register library, which
  is not part of the repository file. By section 4.1 a bus write to a storage register
  persists until it is overwritten, a bus read returns the stored value and changes
  nothing, and a status register ignores bus writes. The step functions of the blocks
  below (\<open>WarmBoot_sync\<close>, \<open>BtPower_sync\<close>, \<open>BtPower_dat_r\<close>, \<open>CRG_bus\<close>, \<open>BtGpio_bus\<close>)
  apply these rules to the registers that the source declares.
\<close>

subsection \<open>WarmBoot\<close>

definition boot_offset :: "32 word" where
  "boot_offset = 0x500000"

definition mem_map_spiflash :: "32 word" where
  "mem_map_spiflash = 0x20000000"

definition cpu_reset_address :: "32 word" where
  "cpu_reset_address = mem_map_spiflash + boot_offset"

record WarmBoot =
  ctrl :: "8 word"
  addr :: "32 word"

definition WarmBoot_init :: "32 word \<Rightarrow> WarmBoot" where
  "WarmBoot_init reset_vector = \<lparr>ctrl = word_of_nat CSR_default_reset, addr = reset_vector\<rparr>"

text \<open>The combinational reset request: the "reset key" comparison on bits 2 to 7.\<close>

definition do_reset :: "WarmBoot \<Rightarrow> bool" where
  "do_reset s =
     (bit (ctrl s) 2 \<and> bit (ctrl s) 3 \<and> \<not> bit (ctrl s) 4
      \<and> bit (ctrl s) 5 \<and> \<not> bit (ctrl s) 6 \<and> bit (ctrl s) 7)"

text \<open>One bus cycle of the block: a write to one of its two storage registers, or none.\<close>

datatype WarmBoot_op = Write_ctrl "8 word" | Write_addr "32 word" | Reboot_idle

fun WarmBoot_sync :: "WarmBoot_op \<Rightarrow> WarmBoot \<Rightarrow> WarmBoot" where
  "WarmBoot_sync (Write_ctrl v) s = s\<lparr>ctrl := v\<rparr>"
| "WarmBoot_sync (Write_addr a) s = s\<lparr>addr := a\<rparr>"
| "WarmBoot_sync Reboot_idle s = s"

fun is_Write_ctrl :: "WarmBoot_op \<Rightarrow> bool" where
  "is_Write_ctrl (Write_ctrl v) = True"
| "is_Write_ctrl (Write_addr a) = False"
| "is_Write_ctrl Reboot_idle = False"

definition WarmBoot_run :: "WarmBoot_op list \<Rightarrow> WarmBoot \<Rightarrow> WarmBoot" where
  "WarmBoot_run ops s = fold WarmBoot_sync ops s"

subsection \<open>BtPower\<close>

definition power_fields :: "CSRField list" where
  "power_fields =
     [CSRField ''audio'' 1 CSR_default_reset,
      CSRField ''self'' 1 1,
      CSRField ''ec_snoop'' 1 CSR_default_reset,
      CSRField ''state'' 2 1,
      CSRField ''noisebias'' 1 CSR_default_reset,
      CSRField ''noise'' 2 CSR_default_reset]"

record BtPower =
  power :: "8 word"

definition BtPower_init :: BtPower where
  "BtPower_init = \<lparr>power = word_of_nat (fields_reset power_fields 0)\<rparr>"

record power_pads =
  audio_on :: bool
  fpga_sys_on :: bool
  noisebias_on :: bool
  allow_up5k_n :: bool
  pwr_s0 :: bool
  pwr_s1 :: bool
  noise_on :: "2 word"

text \<open>
  The combinational assignments of the pads. \<open>ResetSignal\<close> is the reset of the bus clock
  domain in the current cycle.
\<close>

definition BtPower_comb :: "bool \<Rightarrow> BtPower \<Rightarrow> power_pads" where
  "BtPower_comb ResetSignal s =
     \<lparr>audio_on = bit (field_value power_fields ''audio'' (power s)) 0,
      fpga_sys_on = bit (field_value power_fields ''self'' (power s)) 0,
      noisebias_on = bit (field_value power_fields ''noisebias'' (power s)) 0,
      allow_up5k_n = (\<not> bit (field_value power_fields ''ec_snoop'' (power s)) 0),
      pwr_s0 = (bit (field_value power_fields ''state'' (power s)) 0 \<and> \<not> ResetSignal),
      pwr_s1 = bit (field_value power_fields ''state'' (power s)) 1,
      noise_on = ucast (field_value power_fields ''noise'' (power s))\<rparr>"

text \<open>
  Modelled from the spec: one bus cycle of the block, with the storage semantics of the
  register library (section 4.1, and the data model: the power state is mutated only by
  bus writes and read back verbatim). The source declares the register as a storage
  register without a hardware write port, so only a bus write changes it; a bus read
  returns the stored value and leaves the block as it is.
\<close>

datatype BtPower_op = Write_power "8 word" | Read_power | Power_idle

fun BtPower_sync :: "BtPower_op \<Rightarrow> BtPower \<Rightarrow> BtPower" where
  "BtPower_sync (Write_power v) s = s\<lparr>power := v\<rparr>"
| "BtPower_sync Read_power s = s"
| "BtPower_sync Power_idle s = s"

fun BtPower_dat_r :: "BtPower_op \<Rightarrow> BtPower \<Rightarrow> 8 word option" where
  "BtPower_dat_r Read_power s = Some (power s)"
| "BtPower_dat_r (Write_power v) s = None"
| "BtPower_dat_r Power_idle s = None"

fun is_Write_power :: "BtPower_op \<Rightarrow> bool" where
  "is_Write_power (Write_power v) = True"
| "is_Write_power Read_power = False"
| "is_Write_power Power_idle = False"

definition BtPower_run :: "BtPower_op list \<Rightarrow> BtPower \<Rightarrow> BtPower" where
  "BtPower_run ops s = fold BtPower_sync ops s"

text \<open>
  A clock edge of the block with the reset of the bus domain as an input: an edge with
  the reset asserted returns the register to its reset value, whatever the bus does.
\<close>

definition BtPower_clk :: "bool \<Rightarrow> BtPower_op \<Rightarrow> BtPower \<Rightarrow> BtPower" where
  "BtPower_clk ResetSignal op s = (if ResetSignal then BtPower_init else BtPower_sync op s)"

subsection \<open>Library primitives used by the blocks\<close>

text \<open>
  Modelled from the spec: the multi-stage synchronizer \<^verbatim>\<open>MultiReg\<close> of the hardware
  library, which is not part of the repository file. The data model describes a
  synchronizer channel as a register chain of at least two stages clocked by the
  destination domain; the source instantiates it without a stage count, so the chain has
  the two stages of the minimum. Each clock edge samples the input into the first stage
  and moves the first stage into the second; the output is the second stage.
\<close>

record 'a MultiReg =
  regs0 :: 'a
  regs1 :: 'a

definition MultiReg_init :: "'a \<Rightarrow> 'a MultiReg" where
  "MultiReg_init r = \<lparr>regs0 = r, regs1 = r\<rparr>"

definition MultiReg_clk :: "'a \<Rightarrow> 'a MultiReg \<Rightarrow> 'a MultiReg" where
  "MultiReg_clk i s = \<lparr>regs0 = i, regs1 = regs0 s\<rparr>"

definition MultiReg_o :: "'a MultiReg \<Rightarrow> 'a" where
  "MultiReg_o s = regs1 s"

text \<open>
  Modelled from the spec: the reset synchronizer \<^verbatim>\<open>AsyncResetSynchronizer\<close> of the hardware
  library, which is not part of the repository file. The error-handling design says that
  a clock domain is held in reset while its reset request is asserted, unconditionally:
  the request presets both flip-flops asynchronously, so the domain reset is asserted in
  the same cycle; after the request is released, the reset is released through the two
  flip-flops on the following clock edges.
\<close>

record AsyncResetSynchronizer =
  rst_meta :: bool
  cd_rst :: bool

definition AsyncResetSynchronizer_init :: AsyncResetSynchronizer where
  "AsyncResetSynchronizer_init = \<lparr>rst_meta = True, cd_rst = True\<rparr>"

definition AsyncResetSynchronizer_clk ::
    "bool \<Rightarrow> AsyncResetSynchronizer \<Rightarrow> AsyncResetSynchronizer" where
  "AsyncResetSynchronizer_clk async_reset s =
     (if async_reset then \<lparr>rst_meta = True, cd_rst = True\<rparr>
      else \<lparr>rst_meta = False, cd_rst = rst_meta s\<rparr>)"

definition AsyncResetSynchronizer_rst :: "bool \<Rightarrow> AsyncResetSynchronizer \<Rightarrow> bool" where
  "AsyncResetSynchronizer_rst async_reset s = (async_reset \<or> cd_rst s)"

text \<open>
  Modelled from the spec: the event sources of the event manager of the register library,
  which is not part of the repository file. As in section 4.2 a source has the states
  Idle and Pending (the \<open>pending\<close> flag), a software write clears the flag, and a process
  source (falling edge) sets it on a 1-to-0 transition of its trigger, detected against
  the trigger of the previous cycle (\<open>trigger_d\<close>). The pulse source departs from section
  4.2, which describes an edge detector: the library class has none. It expects a trigger
  that is high for a single cycle and sets the flag in every cycle in which the trigger
  is high. In both classes the set is the later of the two clocked assignments, so it
  wins over a clear of the same cycle. Reading the pending register is no input of a
  source at all.
\<close>

datatype event_source = EventSourcePulse | EventSourceProcess

record EventSource =
  trigger_d :: bool
  pending :: bool

definition EventSource_init :: EventSource where
  "EventSource_init = \<lparr>trigger_d = False, pending = False\<rparr>"

fun EventSource_fires :: "event_source \<Rightarrow> bool \<Rightarrow> EventSource \<Rightarrow> bool" where
  "EventSource_fires EventSourcePulse trigger s = trigger"
| "EventSource_fires EventSourceProcess trigger s = (\<not> trigger \<and> trigger_d s)"

definition EventSource_sync ::
    "event_source \<Rightarrow> bool \<Rightarrow> bool \<Rightarrow> EventSource \<Rightarrow> EventSource" where
  "EventSource_sync k trigger clear s =
     \<lparr>trigger_d = trigger,
      pending = (if EventSource_fires k trigger s then True
                 else if clear then False
                 else pending s)\<rparr>"

text \<open>
  A trace of a source: per cycle the trigger and whether software clears the source in
  that cycle. \<open>EventSource_assertions\<close> counts the events that the source presents to
  software: the cycles in which it sets the flag while the flag is clear or while
  software is clearing it.
\<close>

fun EventSource_run ::
    "event_source \<Rightarrow> (bool \<times> bool) list \<Rightarrow> EventSource \<Rightarrow> EventSource" where
  "EventSource_run k [] s = s"
| "EventSource_run k ((t, c) # tr) s = EventSource_run k tr (EventSource_sync k t c s)"

fun EventSource_assertions ::
    "event_source \<Rightarrow> (bool \<times> bool) list \<Rightarrow> EventSource \<Rightarrow> nat" where
  "EventSource_assertions k [] s = 0"
| "EventSource_assertions k ((t, c) # tr) s =
     (if EventSource_fires k t s \<and> (\<not> pending s \<or> c) then 1 else 0)
       + EventSource_assertions k tr (EventSource_sync k t c s)"

subsection \<open>CRG\<close>

text \<open>
  The clock and reset generator, in the configuration of the file (\<^verbatim>\<open>slow_clock = False\<close>).
  The clock generator primitive is outside the model: its lock output \<open>pll_locked\<close> and the
  completion output \<open>mmcm_drdy\<close> of its reconfiguration port are inputs of each cycle, as
  are the strobes of the two request registers.
\<close>

record CRG =
  mmcm_drdy_status :: "1 word"
  mmcm_adr :: "7 word"
  mmcm_dat_w :: "16 word"
  sys_ars :: AsyncResetSynchronizer
  spi_ars :: AsyncResetSynchronizer

record CRG_in =
  mmcm_read_re :: bool
  mmcm_write_re :: bool
  mmcm_drdy :: bool
  pll_locked :: bool

definition CRG_init :: CRG where
  "CRG_init =
     \<lparr>mmcm_drdy_status = word_of_nat CSR_default_reset,
      mmcm_adr = word_of_nat CSR_default_reset,
      mmcm_dat_w = word_of_nat CSR_default_reset,
      sys_ars = AsyncResetSynchronizer_init,
      spi_ars = AsyncResetSynchronizer_init\<rparr>"

text \<open>The signal \<open>rst\<close> of the generator is declared and never driven.\<close>

definition rst :: bool where
  "rst = False"

definition CRG_async_reset :: "CRG_in \<Rightarrow> bool" where
  "CRG_async_reset i = (rst \<or> \<not> pll_locked i)"

definition cd_sys_rst :: "CRG_in \<Rightarrow> CRG \<Rightarrow> bool" where
  "cd_sys_rst i s = AsyncResetSynchronizer_rst (CRG_async_reset i) (sys_ars s)"

definition cd_spi_rst :: "CRG_in \<Rightarrow> CRG \<Rightarrow> bool" where
  "cd_spi_rst i s = AsyncResetSynchronizer_rst (CRG_async_reset i) (spi_ars s)"

text \<open>
  A clock edge of the block. The registers of the port are in the \<open>sys\<close> domain: an
  edge at which the reset of that domain is asserted returns them to their reset values.
  Otherwise the clocked assignment of the ready flag runs. The reset synchronizers step
  at every edge.
\<close>

definition CRG_sync :: "CRG_in \<Rightarrow> CRG \<Rightarrow> CRG" where
  "CRG_sync i s =
     (if cd_sys_rst i s then
        s\<lparr>mmcm_drdy_status := word_of_nat CSR_default_reset,
          mmcm_adr := word_of_nat CSR_default_reset,
          mmcm_dat_w := word_of_nat CSR_default_reset,
          sys_ars := AsyncResetSynchronizer_clk (CRG_async_reset i) (sys_ars s),
          spi_ars := AsyncResetSynchronizer_clk (CRG_async_reset i) (spi_ars s)\<rparr>
      else
        s\<lparr>mmcm_drdy_status :=
            (if mmcm_read_re i \<or> mmcm_write_re i then 0
             else if mmcm_drdy i then 1
             else mmcm_drdy_status s),
          sys_ars := AsyncResetSynchronizer_clk (CRG_async_reset i) (sys_ars s),
          spi_ars := AsyncResetSynchronizer_clk (CRG_async_reset i) (spi_ars s)\<rparr>)"

text \<open>
  Bus writes to the two storage registers of the port. A write in a cycle in which the
  reset of the \<open>sys\<close> domain is asserted is lost: the reset wins.
\<close>

datatype CRG_op = Write_mmcm_adr "7 word" | Write_mmcm_dat_w "16 word" | Crg_idle

fun CRG_bus :: "CRG_op \<Rightarrow> CRG \<Rightarrow> CRG" where
  "CRG_bus (Write_mmcm_adr a) s = s\<lparr>mmcm_adr := a\<rparr>"
| "CRG_bus (Write_mmcm_dat_w d) s = s\<lparr>mmcm_dat_w := d\<rparr>"
| "CRG_bus Crg_idle s = s"

definition CRG_clk :: "CRG_in \<times> CRG_op \<Rightarrow> CRG \<Rightarrow> CRG" where
  "CRG_clk x s =
     (if cd_sys_rst (fst x) s then CRG_sync (fst x) s
      else CRG_bus (snd x) (CRG_sync (fst x) s))"

fun CRG_run :: "(CRG_in \<times> CRG_op) list \<Rightarrow> CRG \<Rightarrow> CRG" where
  "CRG_run [] s = s"
| "CRG_run (x # tr) s = CRG_run tr (CRG_clk x s)"

definition is_request :: "CRG_in \<Rightarrow> bool" where
  "is_request i = (mmcm_read_re i \<or> mmcm_write_re i)"

subsection \<open>BtEvents\<close>

text \<open>
  The two board interrupt lines. Each raw line enters a synchronizer; the trigger of the
  event source is the output of the synchronizer. \<open>com_int\<close> is a pulse source (rising
  edge), \<open>rtc_int\<close> a process source (falling edge). Per cycle the block sees the two raw
  lines and at most one access to a register of its event manager: a read of the pending
  register, a write to it (bit \<open>n\<close> of the written value clears source \<open>n\<close>), or a write
  to the enable register.
\<close>

record BtEvents =
  com_reg :: "bool MultiReg"
  rtc_reg :: "bool MultiReg"
  com_int :: EventSource
  rtc_int :: EventSource
  ev_enable :: "2 word"

record BtEvents_in =
  com :: bool
  rtc :: bool

datatype BtEvents_op =
  Read_ev_pending | Write_ev_pending "2 word" | Write_ev_enable "2 word" | Ev_idle

definition BtEvents_init :: BtEvents where
  "BtEvents_init =
     \<lparr>com_reg = MultiReg_init False,
      rtc_reg = MultiReg_init False,
      com_int = EventSource_init,
      rtc_int = EventSource_init,
      ev_enable = 0\<rparr>"

definition com_int_trigger :: "BtEvents \<Rightarrow> bool" where
  "com_int_trigger s = MultiReg_o (com_reg s)"

definition rtc_int_trigger :: "BtEvents \<Rightarrow> bool" where
  "rtc_int_trigger s = MultiReg_o (rtc_reg s)"

fun ev_clear :: "BtEvents_op \<Rightarrow> nat \<Rightarrow> bool" where
  "ev_clear (Write_ev_pending v) n = bit v n"
| "ev_clear Read_ev_pending n = False"
| "ev_clear (Write_ev_enable v) n = False"
| "ev_clear Ev_idle n = False"

fun ev_enable_next :: "BtEvents_op \<Rightarrow> 2 word \<Rightarrow> 2 word" where
  "ev_enable_next (Write_ev_enable v) e = v"
| "ev_enable_next Read_ev_pending e = e"
| "ev_enable_next (Write_ev_pending v) e = e"
| "ev_enable_next Ev_idle e = e"

fun is_Write_ev_pending :: "BtEvents_op \<Rightarrow> bool" where
  "is_Write_ev_pending (Write_ev_pending v) = True"
| "is_Write_ev_pending Read_ev_pending = False"
| "is_Write_ev_pending (Write_ev_enable v) = False"
| "is_Write_ev_pending Ev_idle = False"

definition BtEvents_sync :: "BtEvents_in \<times> BtEvents_op \<Rightarrow> BtEvents \<Rightarrow> BtEvents" where
  "BtEvents_sync x s =
     \<lparr>com_reg = MultiReg_clk (com (fst x)) (com_reg s),
      rtc_reg = MultiReg_clk (rtc (fst x)) (rtc_reg s),
      com_int = EventSource_sync EventSourcePulse (com_int_trigger s) (ev_clear (snd x) 0) (com_int s),
      rtc_int = EventSource_sync EventSourceProcess (rtc_int_trigger s) (ev_clear (snd x) 1) (rtc_int s),
      ev_enable = ev_enable_next (snd x) (ev_enable s)\<rparr>"

definition BtEvents_run :: "(BtEvents_in \<times> BtEvents_op) list \<Rightarrow> BtEvents \<Rightarrow> BtEvents" where
  "BtEvents_run tr s = fold BtEvents_sync tr s"

definition BtEvents_irq :: "BtEvents \<Rightarrow> bool" where
  "BtEvents_irq s =
     ((pending (com_int s) \<and> bit (ev_enable s) 0) \<or> (pending (rtc_int s) \<and> bit (ev_enable s) 1))"

subsection \<open>BtGpio\<close>

text \<open>
  The board has three general-purpose pins. \<open>gpio_in\<close> is the value on the pins in a
  cycle; it enters a synchronizer whose output is the status of the \<open>input\<close> register.
  The \<open>output\<close> and \<open>drive\<close> registers are storage registers. \<open>intena\<close> and \<open>intpol\<close> are declared as
  status registers and the block assigns nothing to their status: they keep their reset
  value, and a bus write to a status register changes nothing.
\<close>

record BtGpio =
  gpio_reg :: "3 word MultiReg"
  output_storage :: "3 word"
  drive_storage :: "3 word"
  intena_status :: "3 word"
  intpol_status :: "3 word"
  gpioint :: "EventSource list"
  gpio_ev_enable :: "3 word"

datatype BtGpio_op =
    Write_output "3 word" | Write_drive "3 word"
  | Write_input "3 word" | Write_intena "3 word" | Write_intpol "3 word"
  | Write_gpio_ev_pending "3 word" | Write_gpio_ev_enable "3 word"
  | Read_gpio | Gpio_idle

definition nbits :: nat where
  "nbits = 3"

definition BtGpio_init :: BtGpio where
  "BtGpio_init =
     \<lparr>gpio_reg = MultiReg_init (word_of_nat CSR_default_reset),
      output_storage = word_of_nat CSR_default_reset,
      drive_storage = word_of_nat CSR_default_reset,
      intena_status = word_of_nat CSR_default_reset,
      intpol_status = word_of_nat CSR_default_reset,
      gpioint = replicate nbits EventSource_init,
      gpio_ev_enable = 0\<rparr>"

definition input_status :: "BtGpio \<Rightarrow> 3 word" where
  "input_status s = MultiReg_o (gpio_reg s)"

definition gpioint_trigger :: "BtGpio \<Rightarrow> nat \<Rightarrow> bool" where
  "gpioint_trigger s i = (bit (input_status s) i \<noteq> bit (intpol_status s) i)"

definition gpio_out :: "BtGpio \<Rightarrow> 3 word" where
  "gpio_out s = output_storage s"

definition gpio_oe :: "BtGpio \<Rightarrow> 3 word" where
  "gpio_oe s = drive_storage s"

fun gpio_clear :: "BtGpio_op \<Rightarrow> nat \<Rightarrow> bool" where
  "gpio_clear (Write_gpio_ev_pending v) n = bit v n"
| "gpio_clear op n = False"

fun BtGpio_bus :: "BtGpio_op \<Rightarrow> BtGpio \<Rightarrow> BtGpio" where
  "BtGpio_bus (Write_output v) s = s\<lparr>output_storage := v\<rparr>"
| "BtGpio_bus (Write_drive v) s = s\<lparr>drive_storage := v\<rparr>"
| "BtGpio_bus (Write_gpio_ev_enable v) s = s\<lparr>gpio_ev_enable := v\<rparr>"
| "BtGpio_bus (Write_input v) s = s"
| "BtGpio_bus (Write_intena v) s = s"
| "BtGpio_bus (Write_intpol v) s = s"
| "BtGpio_bus (Write_gpio_ev_pending v) s = s"
| "BtGpio_bus Read_gpio s = s"
| "BtGpio_bus Gpio_idle s = s"

definition BtGpio_sync :: "3 word \<times> BtGpio_op \<Rightarrow> BtGpio \<Rightarrow> BtGpio" where
  "BtGpio_sync x s =
     BtGpio_bus (snd x)
       (s\<lparr>gpio_reg := MultiReg_clk (fst x) (gpio_reg s),
          gpioint :=
            map (\<lambda>i. EventSource_sync EventSourcePulse (gpioint_trigger s i) (gpio_clear (snd x) i)
                       (gpioint s ! i))
              [0..<length (gpioint s)]\<rparr>)"

definition BtGpio_run :: "(3 word \<times> BtGpio_op) list \<Rightarrow> BtGpio \<Rightarrow> BtGpio" where
  "BtGpio_run tr s = fold BtGpio_sync tr s"

section \<open>Properties\<close>

subsection \<open>Bits of a byte\<close>

lemma all_less_8:
  "(\<forall>n<8. P (n::nat)) = (P 0 \<and> P 1 \<and> P 2 \<and> P 3 \<and> P 4 \<and> P 5 \<and> P 6 \<and> P 7)"
proof -
  have "(\<forall>n<8. P (n::nat)) = (\<forall>n<Suc (Suc (Suc (Suc (Suc (Suc (Suc (Suc 0))))))). P n)"
    by (simp add: eval_nat_numeral)
  also have "\<dots> = (P 0 \<and> P 1 \<and> P 2 \<and> P 3 \<and> P 4 \<and> P 5 \<and> P 6 \<and> P 7)"
    unfolding All_less_Suc by (auto simp: eval_nat_numeral)
  finally show ?thesis .
qed

lemma word8_eq_iff: "((a :: 8 word) = b) = (\<forall>n<8. bit a n = bit b n)"
  by (auto intro: bit_word_eqI)

lemma reset_key_mask:
  "(bit v 2 \<and> bit v 3 \<and> \<not> bit v 4 \<and> bit v 5 \<and> \<not> bit v 6 \<and> bit v 7)
     = ((v :: 8 word) AND 0xFC = 0xAC)"
  unfolding word8_eq_iff all_less_8 by (simp add: bit_and_iff)

subsection \<open>WarmBoot\<close>

lemma do_reset_mask: "do_reset s = (ctrl s AND 0xFC = 0xAC)"
  unfolding do_reset_def by (rule reset_key_mask)

lemma WarmBoot_sync_ctrl:
  "\<not> is_Write_ctrl op \<Longrightarrow> ctrl (WarmBoot_sync op s) = ctrl s"
  by (cases op) simp_all

lemma WarmBoot_run_ctrl:
  "list_all (\<lambda>op. \<not> is_Write_ctrl op) ops \<Longrightarrow> ctrl (WarmBoot_run ops s) = ctrl s"
  unfolding WarmBoot_run_def
  by (induction ops arbitrary: s) (simp_all add: WarmBoot_sync_ctrl)

lemma power_field_offsets:
  "field_offset power_fields ''audio'' 0 = Some (0, 1)"
  "field_offset power_fields ''self'' 0 = Some (1, 1)"
  "field_offset power_fields ''ec_snoop'' 0 = Some (2, 1)"
  "field_offset power_fields ''state'' 0 = Some (3, 2)"
  "field_offset power_fields ''noisebias'' 0 = Some (5, 1)"
  "field_offset power_fields ''noise'' 0 = Some (6, 2)"
  by (simp_all add: power_fields_def eval_nat_numeral)

text \<open>
  C1. For every byte \<open>v\<close> written to the control field of the warm-reboot block, the reset
  request is asserted exactly when bits 2, 3, 5 and 7 of \<open>v\<close> are 1 and bits 4 and 6 are 0,
  that is when \<open>v\<close> masked with \<open>0xFC\<close> is \<open>0xAC\<close>; bits 0 and 1 do not matter. Writing
  \<open>0xAC\<close> asserts it, writing \<open>0xBC\<close> or \<open>0x00\<close> does not. The request is a function of
  the stored control value alone: two states with the same control value give the same
  request, the request stays asserted through any cycles that do not write the control
  field (idle cycles and writes to the address field), and overwriting the control field
  with a value outside the pattern deasserts it.
\<close>

theorem C1_do_reset_authorization:
  "(do_reset (WarmBoot_sync (Write_ctrl v) s)
      = (bit v 2 \<and> bit v 3 \<and> bit v 5 \<and> bit v 7 \<and> \<not> bit v 4 \<and> \<not> bit v 6))
   \<and> (do_reset (WarmBoot_sync (Write_ctrl v) s) = (v AND 0xFC = 0xAC))
   \<and> do_reset (WarmBoot_sync (Write_ctrl 0xAC) s)
   \<and> \<not> do_reset (WarmBoot_sync (Write_ctrl 0xBC) s)
   \<and> \<not> do_reset (WarmBoot_sync (Write_ctrl 0x00) s)
   \<and> (ctrl s = ctrl s' \<longrightarrow> do_reset s = do_reset s')
   \<and> (v AND 0xFC = 0xAC \<and> list_all (\<lambda>op. \<not> is_Write_ctrl op) ops
        \<longrightarrow> do_reset (WarmBoot_run ops (WarmBoot_sync (Write_ctrl v) s)))
   \<and> (v' AND 0xFC \<noteq> 0xAC
        \<longrightarrow> \<not> do_reset (WarmBoot_sync (Write_ctrl v') (WarmBoot_sync (Write_ctrl v) s)))"
proof -
  have a: "do_reset (WarmBoot_sync (Write_ctrl w) t) = (w AND 0xFC = 0xAC)" for w t
    by (simp add: do_reset_mask)
  have b: "do_reset (WarmBoot_sync (Write_ctrl v) s)
      = (bit v 2 \<and> bit v 3 \<and> bit v 5 \<and> bit v 7 \<and> \<not> bit v 4 \<and> \<not> bit v 6)"
    by (auto simp: do_reset_def)
  have c: "ctrl s = ctrl s' \<longrightarrow> do_reset s = do_reset s'"
    by (simp add: do_reset_def)
  have d: "v AND 0xFC = 0xAC \<and> list_all (\<lambda>op. \<not> is_Write_ctrl op) ops
        \<longrightarrow> do_reset (WarmBoot_run ops (WarmBoot_sync (Write_ctrl v) s))"
    by (simp add: do_reset_mask WarmBoot_run_ctrl)
  have e: "do_reset (WarmBoot_sync (Write_ctrl 0xAC) s)" unfolding a by simp
  have f: "\<not> do_reset (WarmBoot_sync (Write_ctrl 0xBC) s)" unfolding a by simp
  have g: "\<not> do_reset (WarmBoot_sync (Write_ctrl 0x00) s)" unfolding a by simp
  have h: "v' AND 0xFC \<noteq> 0xAC
        \<longrightarrow> \<not> do_reset (WarmBoot_sync (Write_ctrl v') (WarmBoot_sync (Write_ctrl v) s))"
    unfolding a by simp
  from b a c d e f g h show ?thesis by blast
qed

theorem C1_do_reset_authorization_witness:
  "do_reset (WarmBoot_sync (Write_ctrl 0xAC) (WarmBoot_init cpu_reset_address))
   \<and> do_reset (WarmBoot_run [Reboot_idle, Write_addr 0, Reboot_idle]
        (WarmBoot_sync (Write_ctrl 0xAF) (WarmBoot_init cpu_reset_address)))
   \<and> \<not> do_reset (WarmBoot_sync (Write_ctrl 0xA8)
        (WarmBoot_sync (Write_ctrl 0xAF) (WarmBoot_init cpu_reset_address)))"
  using C1_do_reset_authorization [of "0xAF" "WarmBoot_init cpu_reset_address"
      "WarmBoot_init cpu_reset_address" "[Reboot_idle, Write_addr 0, Reboot_idle]" "0xA8"]
  by simp

subsection \<open>BtPower\<close>

lemma power_field_values:
  "field_value power_fields ''audio'' w = take_bit 1 w"
  "field_value power_fields ''self'' w = take_bit 1 (drop_bit 1 w)"
  "field_value power_fields ''ec_snoop'' w = take_bit 1 (drop_bit 2 w)"
  "field_value power_fields ''state'' w = take_bit 2 (drop_bit 3 w)"
  "field_value power_fields ''noisebias'' w = take_bit 1 (drop_bit 5 w)"
  "field_value power_fields ''noise'' w = take_bit 2 (drop_bit 6 w)"
  by (simp_all add: field_value_def power_field_offsets)

lemma power_reset_value: "power BtPower_init = 0x0A"
  by (simp add: BtPower_init_def power_fields_def CSR_default_reset_def)

lemma BtPower_sync_power:
  "\<not> is_Write_power op \<Longrightarrow> BtPower_sync op s = s"
  by (cases op) simp_all

lemma BtPower_run_power:
  "list_all (\<lambda>op. \<not> is_Write_power op) ops \<Longrightarrow> BtPower_run ops s = s"
  unfolding BtPower_run_def
  by (induction ops arbitrary: s) (simp_all add: BtPower_sync_power)

lemma BtPower_run_idle: "BtPower_run (replicate n Power_idle) s = s"
  by (rule BtPower_run_power) (simp add: list_all_iff)

lemma BtPower_clk_reset:
  "BtPower_clk True op s = BtPower_init"
  "power (BtPower_clk True op s) = 0x0A"
  "BtPower_clk False op s = BtPower_sync op s"
  by (simp_all add: BtPower_clk_def power_reset_value)

text \<open>
  C3. At power-on, before any bus write, the fields of the power register read audio = 0,
  self = 1, ec_snoop = 0, state = 0b01, noisebias = 0 and noise = 0b00. With the reset
  of the bus domain deasserted the memory isolation output \<open>pwr_s0\<close> is asserted in that
  state, and it stays asserted through any number of cycles without software action; the
  power-hold output follows the self field and is asserted as well.
\<close>

theorem C3_power_reset_values:
  "field_value power_fields ''audio'' (power BtPower_init) = 0
   \<and> field_value power_fields ''self'' (power BtPower_init) = 1
   \<and> field_value power_fields ''ec_snoop'' (power BtPower_init) = 0
   \<and> field_value power_fields ''state'' (power BtPower_init) = 1
   \<and> field_value power_fields ''noisebias'' (power BtPower_init) = 0
   \<and> field_value power_fields ''noise'' (power BtPower_init) = 0
   \<and> pwr_s0 (BtPower_comb False BtPower_init)
   \<and> pwr_s0 (BtPower_comb False (BtPower_run (replicate n Power_idle) BtPower_init))
   \<and> fpga_sys_on (BtPower_comb r BtPower_init)"
  unfolding BtPower_run_idle
  by (simp add: power_field_values power_reset_value BtPower_comb_def)

text \<open>
  C4. In every state of the power register, \<open>pwr_s0\<close> is 0 while the reset of the bus
  domain is asserted, whatever the state field holds (also right after a bus write of any
  value). With the reset deasserted \<open>pwr_s0\<close> is bit 0 of the state field (bit 3 of the
  register). \<open>pwr_s1\<close> is bit 1 of the state field (bit 4 of the register) whether the
  reset is asserted or not.
\<close>

theorem C4_pwr_s0_gated_by_reset:
  "pwr_s0 (BtPower_comb True s) = False
   \<and> pwr_s0 (BtPower_comb False s) = bit (field_value power_fields ''state'' (power s)) 0
   \<and> pwr_s0 (BtPower_comb False s) = bit (power s) 3
   \<and> pwr_s1 (BtPower_comb r s) = bit (field_value power_fields ''state'' (power s)) 1
   \<and> pwr_s1 (BtPower_comb r s) = bit (power s) 4
   \<and> pwr_s0 (BtPower_comb True (BtPower_sync (Write_power v) s)) = False"
  by (simp add: power_field_values BtPower_comb_def bit_simps)

text \<open>
  C8. A bus write of any byte \<open>V\<close> to the power register followed by a read returns \<open>V\<close>.
  A read and an idle cycle leave the register as it is, so the read still returns \<open>V\<close>
  after any cycles in between that are not bus writes: nothing but a bus write changes
  the stored value.
\<close>

theorem C8_power_write_then_read:
  "BtPower_dat_r Read_power (BtPower_sync (Write_power V) s) = Some V
   \<and> BtPower_sync Read_power s = s
   \<and> BtPower_sync Power_idle s = s
   \<and> (list_all (\<lambda>op. \<not> is_Write_power op) ops \<longrightarrow>
        BtPower_dat_r Read_power (BtPower_run ops (BtPower_sync (Write_power V) s)) = Some V)"
  by (simp add: BtPower_run_power)

theorem C8_power_write_then_read_witness:
  "BtPower_dat_r Read_power
     (BtPower_run [Power_idle, Read_power, Read_power, Power_idle]
        (BtPower_sync (Write_power 0xE5) BtPower_init)) = Some 0xE5"
  using C8_power_write_then_read [of "0xE5" BtPower_init
      "[Power_idle, Read_power, Read_power, Power_idle]"]
  by simp

subsection \<open>CRG\<close>

lemma CRG_bus_status [simp]: "mmcm_drdy_status (CRG_bus op s) = mmcm_drdy_status s"
  by (cases op) simp_all

lemma CRG_bus_ars [simp]:
  "sys_ars (CRG_bus op s) = sys_ars s" "spi_ars (CRG_bus op s) = spi_ars s"
  by (cases op; simp)+

lemma CRG_sync_status:
  "mmcm_drdy_status (CRG_sync i s) =
     (if cd_sys_rst i s then 0
      else if is_request i then 0 else if mmcm_drdy i then 1 else mmcm_drdy_status s)"
  by (simp add: CRG_sync_def is_request_def CSR_default_reset_def)

lemma CRG_sync_ars:
  "sys_ars (CRG_sync i s) = AsyncResetSynchronizer_clk (CRG_async_reset i) (sys_ars s)"
  "spi_ars (CRG_sync i s) = AsyncResetSynchronizer_clk (CRG_async_reset i) (spi_ars s)"
  by (simp_all add: CRG_sync_def)

lemma CRG_clk_status: "mmcm_drdy_status (CRG_clk x s) = mmcm_drdy_status (CRG_sync (fst x) s)"
  by (simp add: CRG_clk_def)

lemma CRG_clk_ars:
  "sys_ars (CRG_clk x s) = sys_ars (CRG_sync (fst x) s)"
  "spi_ars (CRG_clk x s) = spi_ars (CRG_sync (fst x) s)"
  by (simp_all add: CRG_clk_def)

lemma CRG_run_no_drdy:
  "list_all (\<lambda>x. \<not> mmcm_drdy (fst x)) tr \<Longrightarrow> mmcm_drdy_status s = 0
     \<Longrightarrow> mmcm_drdy_status (CRG_run tr s) = 0"
proof (induction tr arbitrary: s)
  case Nil
  then show ?case by simp
next
  case (Cons x tr)
  from Cons.prems have "mmcm_drdy_status (CRG_clk x s) = 0"
    by (simp add: CRG_clk_status CRG_sync_status)
  with Cons show ?case by simp
qed

lemma CRG_async_reset_unlocked: "\<not> pll_locked i \<Longrightarrow> CRG_async_reset i"
  by (simp add: CRG_async_reset_def)

text \<open>
  C5 does not hold as stated: the ready register of the clock port is declared without a
  reset value, so at power-on it holds the default 0 and not 1.
\<close>

theorem C5_ready_reset_counterexample:
  "mmcm_drdy_status CRG_init \<noteq> 1"
  by (simp add: CRG_init_def CSR_default_reset_def)

text \<open>
  C5, amended. The ready field of the clock reconfiguration port has reset value 0: it
  reads 0 after power-on before any request has been issued, and it keeps reading 0
  through all cycles in which the reconfiguration port reports no completion.
\<close>

theorem C5_ready_reset_value:
  "mmcm_drdy_status CRG_init = 0
   \<and> (list_all (\<lambda>x. \<not> mmcm_drdy (fst x)) tr \<longrightarrow> mmcm_drdy_status (CRG_run tr CRG_init) = 0)"
proof -
  have z: "mmcm_drdy_status CRG_init = 0"
    by (simp add: CRG_init_def CSR_default_reset_def)
  then show ?thesis by (simp add: CRG_run_no_drdy)
qed

theorem C5_ready_reset_value_witness:
  "mmcm_drdy_status (CRG_run
      [(\<lparr>mmcm_read_re = False, mmcm_write_re = False, mmcm_drdy = False, pll_locked = True\<rparr>, Crg_idle),
       (\<lparr>mmcm_read_re = False, mmcm_write_re = False, mmcm_drdy = False, pll_locked = True\<rparr>, Write_mmcm_adr 8)]
      CRG_init) = 0"
  using C5_ready_reset_value [of
      "[(\<lparr>mmcm_read_re = False, mmcm_write_re = False, mmcm_drdy = False, pll_locked = True\<rparr>, Crg_idle),
       (\<lparr>mmcm_read_re = False, mmcm_write_re = False, mmcm_drdy = False, pll_locked = True\<rparr>, Write_mmcm_adr 8)]"]
  by simp

text \<open>
  C6. Both updates of the ready flag are clocked. The clock edge of a cycle in which a
  read or write request is strobed loads 0 into the flag. At a clock edge with the reset
  of the \<open>sys\<close> domain released, a cycle in which the reconfiguration port reports
  completion, and no request is strobed, loads 1, so the flag reads 1 one cycle after the
  completion; a cycle with neither leaves the flag as it is, so nothing else sets it.
  After a request the flag stays 0 through all following cycles without a completion.
  When a request and a completion fall in the same cycle the clear wins. A clock edge
  with the reset of the \<open>sys\<close> domain asserted (the lock signal is lost, or the reset
  has not been released yet) returns the flag to its reset value 0.
\<close>

theorem C6_ready_handshake:
  "(is_request i \<longrightarrow> mmcm_drdy_status (CRG_sync i s) = 0)
   \<and> (\<not> cd_sys_rst i s \<and> \<not> is_request i \<and> mmcm_drdy i
        \<longrightarrow> mmcm_drdy_status (CRG_sync i s) = 1)
   \<and> (\<not> cd_sys_rst i s \<and> \<not> is_request i \<and> \<not> mmcm_drdy i
        \<longrightarrow> mmcm_drdy_status (CRG_sync i s) = mmcm_drdy_status s)
   \<and> (is_request i \<and> list_all (\<lambda>x. \<not> mmcm_drdy (fst x)) tr
        \<longrightarrow> mmcm_drdy_status (CRG_run ((i, op) # tr) s) = 0)
   \<and> (is_request i \<and> mmcm_drdy i \<longrightarrow> mmcm_drdy_status (CRG_sync i s) = 0)
   \<and> (cd_sys_rst i s \<longrightarrow> mmcm_drdy_status (CRG_sync i s) = 0)"
  by (simp add: CRG_sync_status CRG_clk_status CRG_run_no_drdy)

theorem C6_ready_handshake_witness:
  "mmcm_drdy_status (CRG_sync
      \<lparr>mmcm_read_re = False, mmcm_write_re = False, mmcm_drdy = True, pll_locked = True\<rparr>
      (CRG_run
        [(\<lparr>mmcm_read_re = False, mmcm_write_re = False, mmcm_drdy = False, pll_locked = True\<rparr>, Crg_idle),
         (\<lparr>mmcm_read_re = False, mmcm_write_re = False, mmcm_drdy = False, pll_locked = True\<rparr>, Crg_idle)]
        CRG_init)) = 1
   \<and> mmcm_drdy_status (CRG_sync
      \<lparr>mmcm_read_re = False, mmcm_write_re = False, mmcm_drdy = False, pll_locked = True\<rparr>
      (CRG_run
        [(\<lparr>mmcm_read_re = False, mmcm_write_re = False, mmcm_drdy = False, pll_locked = True\<rparr>, Crg_idle),
         (\<lparr>mmcm_read_re = False, mmcm_write_re = False, mmcm_drdy = False, pll_locked = True\<rparr>, Crg_idle),
         (\<lparr>mmcm_read_re = False, mmcm_write_re = False, mmcm_drdy = True, pll_locked = True\<rparr>, Crg_idle)]
        CRG_init)) = 1
   \<and> mmcm_drdy_status (CRG_run
      [(\<lparr>mmcm_read_re = True, mmcm_write_re = False, mmcm_drdy = True, pll_locked = True\<rparr>, Crg_idle),
       (\<lparr>mmcm_read_re = False, mmcm_write_re = False, mmcm_drdy = False, pll_locked = True\<rparr>, Crg_idle),
       (\<lparr>mmcm_read_re = False, mmcm_write_re = False, mmcm_drdy = False, pll_locked = True\<rparr>, Crg_idle)]
      (CRG_run
        [(\<lparr>mmcm_read_re = False, mmcm_write_re = False, mmcm_drdy = False, pll_locked = True\<rparr>, Crg_idle),
         (\<lparr>mmcm_read_re = False, mmcm_write_re = False, mmcm_drdy = False, pll_locked = True\<rparr>, Crg_idle),
         (\<lparr>mmcm_read_re = False, mmcm_write_re = False, mmcm_drdy = True, pll_locked = True\<rparr>, Crg_idle)]
        CRG_init)) = 0
   \<and> mmcm_drdy_status (CRG_sync
      \<lparr>mmcm_read_re = False, mmcm_write_re = False, mmcm_drdy = True, pll_locked = False\<rparr>
      (CRG_run
        [(\<lparr>mmcm_read_re = False, mmcm_write_re = False, mmcm_drdy = False, pll_locked = True\<rparr>, Crg_idle),
         (\<lparr>mmcm_read_re = False, mmcm_write_re = False, mmcm_drdy = False, pll_locked = True\<rparr>, Crg_idle),
         (\<lparr>mmcm_read_re = False, mmcm_write_re = False, mmcm_drdy = True, pll_locked = True\<rparr>, Crg_idle)]
        CRG_init)) = 0"
proof -
  let ?req = "\<lparr>mmcm_read_re = True, mmcm_write_re = False, mmcm_drdy = True, pll_locked = True\<rparr>"
  let ?done = "\<lparr>mmcm_read_re = False, mmcm_write_re = False, mmcm_drdy = True, pll_locked = True\<rparr>"
  let ?idle = "\<lparr>mmcm_read_re = False, mmcm_write_re = False, mmcm_drdy = False, pll_locked = True\<rparr>"
  let ?lost = "\<lparr>mmcm_read_re = False, mmcm_write_re = False, mmcm_drdy = True, pll_locked = False\<rparr>"
  let ?s0 = "CRG_run [(?idle, Crg_idle), (?idle, Crg_idle)] CRG_init"
  let ?s1 = "CRG_run [(?idle, Crg_idle), (?idle, Crg_idle), (?done, Crg_idle)] CRG_init"
  note defs = cd_sys_rst_def AsyncResetSynchronizer_rst_def CRG_async_reset_def rst_def
    CRG_clk_def CRG_sync_def CRG_init_def AsyncResetSynchronizer_clk_def
    AsyncResetSynchronizer_init_def CSR_default_reset_def
  have r: "is_request ?req" "\<not> is_request ?done" "mmcm_drdy ?done" "mmcm_drdy ?req"
    "\<not> is_request ?idle" "\<not> mmcm_drdy ?idle"
    by (simp_all add: is_request_def)
  have l: "list_all (\<lambda>x. \<not> mmcm_drdy (fst x)) [(?idle, Crg_idle), (?idle, Crg_idle)]"
    by simp
  have n0: "\<not> cd_sys_rst ?done ?s0" by (simp add: defs)
  have n1: "\<not> cd_sys_rst ?idle ?s1" by (simp add: defs)
  have n2: "cd_sys_rst ?lost ?s1" by (simp add: defs)
  have one: "mmcm_drdy_status ?s1 = 1" by (simp add: defs)
  from C6_ready_handshake [of ?done ?s0 "[]" Crg_idle] r n0
  have b: "mmcm_drdy_status (CRG_sync ?done ?s0) = 1" by blast
  from C6_ready_handshake [of ?idle ?s1 "[]" Crg_idle] r n1 one
  have c: "mmcm_drdy_status (CRG_sync ?idle ?s1) = 1" by simp
  from C6_ready_handshake [of ?req ?s1 "[(?idle, Crg_idle), (?idle, Crg_idle)]" Crg_idle] r l
  have d: "mmcm_drdy_status (CRG_run [(?req, Crg_idle), (?idle, Crg_idle), (?idle, Crg_idle)] ?s1) = 0"
    by blast
  from C6_ready_handshake [of ?lost ?s1 "[]" Crg_idle] n2
  have f: "mmcm_drdy_status (CRG_sync ?lost ?s1) = 0" by blast
  from b c d f show ?thesis by blast
qed

text \<open>
  C7. In every state of the clock generator block, reached through any register accesses
  and request strobes, a cycle in which the lock signal is false has the reset of the
  \<open>sys\<close> domain and the reset of the \<open>spi\<close> domain asserted, and the clock edge of that
  cycle leaves both reset synchronizers asserting it. The reset request is the lock
  signal alone: no register of the block, and no strobe of the cycle, is an input of it.
\<close>

theorem C7_reset_while_unlocked:
  "\<not> pll_locked i \<Longrightarrow>
     cd_sys_rst i (CRG_run tr s) \<and> cd_spi_rst i (CRG_run tr s)
     \<and> cd_rst (sys_ars (CRG_sync i (CRG_run tr s)))
     \<and> cd_rst (spi_ars (CRG_sync i (CRG_run tr s)))"
  by (simp add: cd_sys_rst_def cd_spi_rst_def AsyncResetSynchronizer_rst_def
      CRG_async_reset_unlocked CRG_sync_ars AsyncResetSynchronizer_clk_def)

theorem C7_reset_while_unlocked_witness:
  "cd_sys_rst \<lparr>mmcm_read_re = False, mmcm_write_re = False, mmcm_drdy = False, pll_locked = False\<rparr>
      (CRG_run
        [(\<lparr>mmcm_read_re = False, mmcm_write_re = False, mmcm_drdy = False, pll_locked = True\<rparr>, Crg_idle),
         (\<lparr>mmcm_read_re = False, mmcm_write_re = False, mmcm_drdy = False, pll_locked = True\<rparr>, Write_mmcm_adr 3),
         (\<lparr>mmcm_read_re = True, mmcm_write_re = False, mmcm_drdy = False, pll_locked = True\<rparr>, Crg_idle)]
        CRG_init)
   \<and> cd_spi_rst \<lparr>mmcm_read_re = False, mmcm_write_re = False, mmcm_drdy = False, pll_locked = False\<rparr>
      (CRG_run
        [(\<lparr>mmcm_read_re = False, mmcm_write_re = False, mmcm_drdy = False, pll_locked = True\<rparr>, Crg_idle),
         (\<lparr>mmcm_read_re = False, mmcm_write_re = False, mmcm_drdy = False, pll_locked = True\<rparr>, Write_mmcm_adr 3),
         (\<lparr>mmcm_read_re = True, mmcm_write_re = False, mmcm_drdy = False, pll_locked = True\<rparr>, Crg_idle)]
        CRG_init)
   \<and> \<not> cd_sys_rst \<lparr>mmcm_read_re = False, mmcm_write_re = False, mmcm_drdy = False, pll_locked = True\<rparr>
      (CRG_run
        [(\<lparr>mmcm_read_re = False, mmcm_write_re = False, mmcm_drdy = False, pll_locked = True\<rparr>, Crg_idle),
         (\<lparr>mmcm_read_re = False, mmcm_write_re = False, mmcm_drdy = False, pll_locked = True\<rparr>, Write_mmcm_adr 3),
         (\<lparr>mmcm_read_re = True, mmcm_write_re = False, mmcm_drdy = False, pll_locked = True\<rparr>, Crg_idle)]
        CRG_init)"
proof -
  let ?off = "\<lparr>mmcm_read_re = False, mmcm_write_re = False, mmcm_drdy = False, pll_locked = False\<rparr>"
  let ?on = "\<lparr>mmcm_read_re = False, mmcm_write_re = False, mmcm_drdy = False, pll_locked = True\<rparr>"
  let ?rd = "\<lparr>mmcm_read_re = True, mmcm_write_re = False, mmcm_drdy = False, pll_locked = True\<rparr>"
  let ?tr = "[(?on, Crg_idle), (?on, Write_mmcm_adr 3), (?rd, Crg_idle)]"
  have u: "\<not> pll_locked ?off" by simp
  have n: "\<not> cd_sys_rst ?on (CRG_run ?tr CRG_init)"
    by (simp add: cd_sys_rst_def AsyncResetSynchronizer_rst_def CRG_async_reset_def rst_def
        CRG_clk_def CRG_sync_def CRG_init_def AsyncResetSynchronizer_clk_def
        AsyncResetSynchronizer_init_def)
  from C7_reset_while_unlocked [OF u, of ?tr CRG_init] n show ?thesis by blast
qed

subsection \<open>Event sources\<close>

lemma EventSource_sync_set:
  "EventSource_fires k t s \<Longrightarrow> pending (EventSource_sync k t c s)"
  by (simp add: EventSource_sync_def)

lemma EventSource_sync_keeps:
  "pending s \<Longrightarrow> pending (EventSource_sync k t False s)"
  by (simp add: EventSource_sync_def)

lemma EventSource_sync_clear:
  "\<not> EventSource_fires k t s \<Longrightarrow> \<not> pending (EventSource_sync k t True s)"
  by (simp add: EventSource_sync_def)

lemma EventSource_run_keeps:
  "pending s \<Longrightarrow> list_all (\<lambda>x. \<not> snd x) tr \<Longrightarrow> pending (EventSource_run k tr s)"
proof (induction tr arbitrary: s)
  case Nil
  then show ?case by simp
next
  case (Cons x tr)
  obtain t c where x: "x = (t, c)" by (cases x)
  with Cons.prems have c: "\<not> c" by simp
  with Cons.prems(1) have "pending (EventSource_sync k t c s)"
    by (simp add: EventSource_sync_keeps)
  with Cons show ?case by (simp add: x)
qed

text \<open>
  A pulse that software does not clear while it is high is one event: the flag is set in
  its first cycle and stays set.
\<close>

lemma assertions_pending_no_clear:
  "pending s \<Longrightarrow> EventSource_assertions EventSourcePulse (map (\<lambda>t. (t, False)) ts) s = 0"
proof (induction ts arbitrary: s)
  case Nil
  then show ?case by simp
next
  case (Cons t ts)
  from Cons.prems have "pending (EventSource_sync EventSourcePulse t False s)"
    by (rule EventSource_sync_keeps)
  from Cons.IH [OF this] Cons.prems show ?case by simp
qed

lemma assertions_pulse_no_clear:
  "\<not> pending s \<Longrightarrow>
     EventSource_assertions EventSourcePulse
       (map (\<lambda>t. (t, False)) (True # replicate n True @ replicate m False)) s = 1"
proof -
  assume "\<not> pending s"
  moreover have "pending (EventSource_sync EventSourcePulse True False s)"
    by (simp add: EventSource_sync_set)
  from assertions_pending_no_clear [OF this, of "replicate n True @ replicate m False"]
  have "EventSource_assertions EventSourcePulse
      (map (\<lambda>t. (t, False)) (replicate n True @ replicate m False))
      (EventSource_sync EventSourcePulse True False s) = 0" .
  ultimately show ?thesis by simp
qed

subsubsection \<open>The pulse sources of BtEvents and BtGpio\<close>

lemma BtEvents_sync_com_int:
  "com_int (BtEvents_sync x s) =
     EventSource_sync EventSourcePulse (com_int_trigger s) (ev_clear (snd x) 0) (com_int s)"
  by (simp add: BtEvents_sync_def)

lemma ev_clear_no_write: "\<not> is_Write_ev_pending op \<Longrightarrow> \<not> ev_clear op n"
  by (cases op) simp_all

lemma com_int_set:
  "com_int_trigger b \<Longrightarrow> pending (com_int (BtEvents_sync x b))"
  by (simp add: BtEvents_sync_com_int EventSource_sync_set)

lemma com_int_keeps:
  "pending (com_int b) \<Longrightarrow> \<not> is_Write_ev_pending (snd x)
     \<Longrightarrow> pending (com_int (BtEvents_sync x b))"
  by (simp add: BtEvents_sync_com_int ev_clear_no_write EventSource_sync_keeps)

lemma com_int_clear:
  "\<not> com_int_trigger b \<Longrightarrow> bit v 0
     \<Longrightarrow> \<not> pending (com_int (BtEvents_sync (i, Write_ev_pending v) b))"
  by (simp add: BtEvents_sync_com_int EventSource_sync_clear)

lemma BtEvents_read_is_idle:
  "BtEvents_sync (i, Read_ev_pending) b = BtEvents_sync (i, Ev_idle) b"
  by (simp add: BtEvents_sync_def)

lemma BtEvents_run_keeps:
  "pending (com_int s) \<Longrightarrow> list_all (\<lambda>x. \<not> is_Write_ev_pending (snd x)) tr
     \<Longrightarrow> pending (com_int (BtEvents_run tr s))"
  unfolding BtEvents_run_def
proof (induction tr arbitrary: s)
  case Nil
  then show ?case by simp
next
  case (Cons x tr)
  from Cons.prems have "pending (com_int (BtEvents_sync x s))"
    by (simp add: com_int_keeps)
  with Cons show ?case by simp
qed

lemma BtGpio_bus_gpioint [simp]: "gpioint (BtGpio_bus op s) = gpioint s"
  by (cases op) simp_all

lemma BtGpio_sync_gpioint:
  "n < length (gpioint s) \<Longrightarrow>
     gpioint (BtGpio_sync x s) ! n =
       EventSource_sync EventSourcePulse (gpioint_trigger s n) (gpio_clear (snd x) n) (gpioint s ! n)"
  by (simp add: BtGpio_sync_def)

lemma gpioint_set:
  "n < length (gpioint s) \<Longrightarrow> gpioint_trigger s n
     \<Longrightarrow> pending (gpioint (BtGpio_sync x s) ! n)"
  by (simp add: BtGpio_sync_gpioint EventSource_sync_set)

lemma gpioint_clear:
  "n < length (gpioint s) \<Longrightarrow> \<not> gpioint_trigger s n \<Longrightarrow> bit v n
     \<Longrightarrow> \<not> pending (gpioint (BtGpio_sync (p, Write_gpio_ev_pending v) s) ! n)"
  by (simp add: BtGpio_sync_gpioint EventSource_sync_clear)

text \<open>
  C2. The pulse sources of the board are not rising-edge sources once the line stays
  high. The trigger of \<open>com_int\<close> is the synchronized line itself and the source sets its
  flag in every cycle in which the trigger is high. A write that clears \<open>com_int\<close> while
  the synchronized line is still high leaves the flag set; the same write after the
  synchronized line has gone low clears it. A pulse held high for three cycles that
  software clears in its second and third cycle presents three events; the same pulse
  without a clear meanwhile presents one. The event source of a GPIO bit does the same.
\<close>

theorem C2_pulse_held_high_reasserts:
  "pending (com_int (BtEvents_run
      [(\<lparr>com = True, rtc = False\<rparr>, Ev_idle),
       (\<lparr>com = True, rtc = False\<rparr>, Ev_idle),
       (\<lparr>com = True, rtc = False\<rparr>, Ev_idle),
       (\<lparr>com = True, rtc = False\<rparr>, Write_ev_pending 1)]
      BtEvents_init))
   \<and> \<not> pending (com_int (BtEvents_run
      [(\<lparr>com = True, rtc = False\<rparr>, Ev_idle),
       (\<lparr>com = True, rtc = False\<rparr>, Ev_idle),
       (\<lparr>com = True, rtc = False\<rparr>, Ev_idle),
       (\<lparr>com = False, rtc = False\<rparr>, Ev_idle),
       (\<lparr>com = False, rtc = False\<rparr>, Ev_idle),
       (\<lparr>com = False, rtc = False\<rparr>, Write_ev_pending 1)]
      BtEvents_init))
   \<and> EventSource_assertions EventSourcePulse
        [(True, False), (True, True), (True, True), (False, False)] EventSource_init = 3
   \<and> EventSource_assertions EventSourcePulse
        [(True, False), (True, False), (True, False), (False, False)] EventSource_init = 1
   \<and> pending (gpioint (BtGpio_run
      [(1, Gpio_idle), (1, Gpio_idle), (1, Gpio_idle), (1, Write_gpio_ev_pending 1)]
      BtGpio_init) ! 0)"
proof -
  note ev = BtEvents_run_def BtEvents_sync_def BtEvents_init_def com_int_trigger_def
    rtc_int_trigger_def MultiReg_o_def MultiReg_clk_def MultiReg_init_def
    EventSource_sync_def EventSource_init_def
  have a: "pending (com_int (BtEvents_run
      [(\<lparr>com = True, rtc = False\<rparr>, Ev_idle),
       (\<lparr>com = True, rtc = False\<rparr>, Ev_idle),
       (\<lparr>com = True, rtc = False\<rparr>, Ev_idle),
       (\<lparr>com = True, rtc = False\<rparr>, Write_ev_pending 1)]
      BtEvents_init))"
    by (simp add: ev)
  have b: "\<not> pending (com_int (BtEvents_run
      [(\<lparr>com = True, rtc = False\<rparr>, Ev_idle),
       (\<lparr>com = True, rtc = False\<rparr>, Ev_idle),
       (\<lparr>com = True, rtc = False\<rparr>, Ev_idle),
       (\<lparr>com = False, rtc = False\<rparr>, Ev_idle),
       (\<lparr>com = False, rtc = False\<rparr>, Ev_idle),
       (\<lparr>com = False, rtc = False\<rparr>, Write_ev_pending 1)]
      BtEvents_init))"
    by (simp add: ev)
  have c: "EventSource_assertions EventSourcePulse
        [(True, False), (True, True), (True, True), (False, False)] EventSource_init = 3"
    by (simp add: EventSource_sync_def EventSource_init_def)
  have d: "EventSource_assertions EventSourcePulse
        [(True, False), (True, False), (True, False), (False, False)] EventSource_init = 1"
    by (simp add: EventSource_sync_def EventSource_init_def)
  have e: "pending (gpioint (BtGpio_run
      [(1, Gpio_idle), (1, Gpio_idle), (1, Gpio_idle), (1, Write_gpio_ev_pending 1)]
      BtGpio_init) ! 0)"
    by (simp add: BtGpio_run_def BtGpio_sync_def BtGpio_init_def gpioint_trigger_def
        input_status_def nbits_def CSR_default_reset_def MultiReg_o_def MultiReg_clk_def
        MultiReg_init_def EventSource_sync_def EventSource_init_def eval_nat_numeral)
  from a b c d e show ?thesis by blast
qed

subsection \<open>Synchronized inputs and BtGpio\<close>

lemma BtGpio_bus_regs [simp]:
  "gpio_reg (BtGpio_bus op s) = gpio_reg s"
  "intpol_status (BtGpio_bus op s) = intpol_status s"
  "intena_status (BtGpio_bus op s) = intena_status s"
  by (cases op; simp)+

lemma BtGpio_sync_regs:
  "gpio_reg (BtGpio_sync x s) = MultiReg_clk (fst x) (gpio_reg s)"
  "intpol_status (BtGpio_sync x s) = intpol_status s"
  "intena_status (BtGpio_sync x s) = intena_status s"
  by (simp_all add: BtGpio_sync_def)

lemma BtGpio_run_status:
  "intpol_status (BtGpio_run tr s) = intpol_status s"
  "intena_status (BtGpio_run tr s) = intena_status s"
  unfolding BtGpio_run_def
  by (induction tr arbitrary: s; simp add: BtGpio_sync_regs)+

lemma MultiReg_two_edges:
  "MultiReg_o (MultiReg_clk b (MultiReg_clk a m)) = a"
  by (simp add: MultiReg_o_def MultiReg_clk_def)

lemma BtEvents_two_edges:
  "com_int_trigger (BtEvents_sync b (BtEvents_sync a s)) = com (fst a)"
  "rtc_int_trigger (BtEvents_sync b (BtEvents_sync a s)) = rtc (fst a)"
  by (simp_all add: com_int_trigger_def rtc_int_trigger_def BtEvents_sync_def MultiReg_two_edges)

lemma BtGpio_two_edges:
  "input_status (BtGpio_sync b (BtGpio_sync a s)) = fst a"
  by (simp add: input_status_def BtGpio_sync_regs MultiReg_two_edges)

text \<open>
  C9. The trigger of \<open>com_int\<close>, the trigger of \<open>rtc_int\<close>, the status of the GPIO input
  register and the triggers of the GPIO event sources are functions of the registers of
  the synchronizers alone, never of the raw pins of the current cycle. After any run that
  ends with the two cycles \<open>a\<close> and \<open>b\<close> each of them shows the raw value sampled in cycle
  \<open>a\<close>, two clock edges earlier, as a whole; the raw value of cycle \<open>b\<close> has not reached
  it. Before two clock edges have passed they show the reset value 0.
\<close>

theorem C9_inputs_through_synchronizer:
  "com_int_trigger (BtEvents_run (tr @ [a, b]) s) = com (fst a)
   \<and> rtc_int_trigger (BtEvents_run (tr @ [a, b]) s) = rtc (fst a)
   \<and> input_status (BtGpio_run (gtr @ [ga, gb]) g) = fst ga
   \<and> gpioint_trigger (BtGpio_run (gtr @ [ga, gb]) g) n = (bit (fst ga) n \<noteq> bit (intpol_status g) n)
   \<and> com_int_trigger BtEvents_init = False
   \<and> com_int_trigger (BtEvents_sync a BtEvents_init) = False
   \<and> rtc_int_trigger BtEvents_init = False
   \<and> rtc_int_trigger (BtEvents_sync a BtEvents_init) = False
   \<and> input_status BtGpio_init = 0
   \<and> input_status (BtGpio_sync ga BtGpio_init) = 0"
proof -
  have e: "BtEvents_run (tr @ [a, b]) s = BtEvents_sync b (BtEvents_sync a (BtEvents_run tr s))"
    by (simp add: BtEvents_run_def)
  have g: "BtGpio_run (gtr @ [ga, gb]) g = BtGpio_sync gb (BtGpio_sync ga (BtGpio_run gtr g))"
    by (simp add: BtGpio_run_def)
  have p: "intpol_status (BtGpio_sync gb (BtGpio_sync ga (BtGpio_run gtr g))) = intpol_status g"
    by (simp add: BtGpio_sync_regs BtGpio_run_status)
  have i: "com_int_trigger BtEvents_init = False" "rtc_int_trigger BtEvents_init = False"
    "com_int_trigger (BtEvents_sync a BtEvents_init) = False"
    "rtc_int_trigger (BtEvents_sync a BtEvents_init) = False"
    by (simp_all add: com_int_trigger_def rtc_int_trigger_def BtEvents_init_def BtEvents_sync_def
        MultiReg_o_def MultiReg_clk_def MultiReg_init_def)
  have j: "input_status BtGpio_init = 0" "input_status (BtGpio_sync ga BtGpio_init) = 0"
    by (simp_all add: input_status_def BtGpio_sync_regs BtGpio_init_def CSR_default_reset_def
        MultiReg_o_def MultiReg_clk_def MultiReg_init_def)
  show ?thesis
    unfolding e g gpioint_trigger_def p
    by (simp add: BtEvents_two_edges BtGpio_two_edges i j)
qed

text \<open>
  C10. In every state of the GPIO block reached from power-on by any sequence of pin values
  and bus accesses, the interrupt-enable and interrupt-polarity registers read 0, and the
  trigger of the event source of every bit is the synchronized input bit itself. A bus
  write to either register is the same step as an idle cycle, and the value of the
  interrupt-enable register is an input of nothing else in the block.
\<close>

theorem C10_gpio_intena_intpol_inoperative:
  "intena_status (BtGpio_run tr BtGpio_init) = 0
   \<and> intpol_status (BtGpio_run tr BtGpio_init) = 0
   \<and> gpioint_trigger (BtGpio_run tr BtGpio_init) i = bit (input_status (BtGpio_run tr BtGpio_init)) i
   \<and> BtGpio_sync (p, Write_intena v) s = BtGpio_sync (p, Gpio_idle) s
   \<and> BtGpio_sync (p, Write_intpol v) s = BtGpio_sync (p, Gpio_idle) s
   \<and> BtGpio_sync x (s\<lparr>intena_status := e\<rparr>) = (BtGpio_sync x s)\<lparr>intena_status := e\<rparr>"
proof -
  have z: "intena_status BtGpio_init = 0" "intpol_status BtGpio_init = 0"
    by (simp_all add: BtGpio_init_def CSR_default_reset_def)
  have w: "BtGpio_sync (p, Write_intena v) s = BtGpio_sync (p, Gpio_idle) s"
    "BtGpio_sync (p, Write_intpol v) s = BtGpio_sync (p, Gpio_idle) s"
    by (simp_all add: BtGpio_sync_def)
  have k: "BtGpio_sync x (s\<lparr>intena_status := e\<rparr>) = (BtGpio_sync x s)\<lparr>intena_status := e\<rparr>"
    by (cases "snd x") (simp_all add: BtGpio_sync_def gpioint_trigger_def input_status_def)
  show ?thesis
    unfolding gpioint_trigger_def BtGpio_run_status z
    using w k by simp
qed

end
